theory Spec2Isabelle
  imports Main "HOL-Library.AList"
begin

section \<open>Python values, JSON documents and HTTP messages\<close>

text \<open>
  The client is written in Python, so the arguments of the typed operations are
  dynamically typed: a caller may pass \<^verbatim>\<open>None\<close>, a boolean, an integer, a string or a
  list. The tests the code makes on them (\<^verbatim>\<open>if services:\<close>) are Python's truth tests.
\<close>

datatype pyval = PNone | PBool bool | PInt int | PStr string | PList "pyval list"

fun truthy :: "pyval \<Rightarrow> bool" where
  "truthy PNone = False"
| "truthy (PBool b) = b"
| "truthy (PInt i) = (i \<noteq> 0)"
| "truthy (PStr s) = (s \<noteq> [])"
| "truthy (PList xs) = (xs \<noteq> [])"

text \<open>
  A Python \<^verbatim>\<open>dict\<close> with string keys keeps its insertion order; it is an association
  list here. \<open>setitem d k v\<close> is \<^verbatim>\<open>d[k] = v\<close>: it replaces the value of a key that is
  present and appends a new key at the end.
\<close>

type_synonym pydict = "(string \<times> pyval) list"

definition setitem :: "pydict \<Rightarrow> string \<Rightarrow> pyval \<Rightarrow> pydict" where
  "setitem d k v = AList.update k v d"

definition keys :: "pydict \<Rightarrow> string list" where
  "keys d = map fst d"

datatype json =
    JNull
  | JBool bool
  | JNum int
  | JStr string
  | JArr "json list"
  | JObj "(string \<times> json) list"

datatype http_method = GET | PUT | POST | DELETE

text \<open>
  A request as the Transport receives it: \<open>params\<close> is the \<^verbatim>\<open>params=\<close> keyword (the
  query string), \<open>data\<close> the \<^verbatim>\<open>data=\<close> keyword (the form body); each is \<open>None\<close> when
  the call does not pass the keyword.
\<close>

record request =
  meth :: http_method
  path :: string
  params :: "pydict option"
  data :: "pydict option"

text \<open>
  A response of the service: the status, the raw body, and the document the JSON
  decoder gives for the body (\<open>None\<close> when the body is not a JSON document).
\<close>

record response =
  status_code :: nat
  content :: string
  json_body :: "json option"

text \<open>
  What an invocation does to the outside world, in order: it prompts on the terminal
  and it sends requests.
\<close>

datatype event = Prompt string | Request request

datatype error =
    ValidationError string
  | RemoteServiceError nat string
  | JSONDecodeError
  | ArgumentError string
  | HelpExit

type_synonym 'a outcome = "(error + 'a) \<times> event list"

definition requests :: "event list \<Rightarrow> request list" where
  "requests evs = concat (map (\<lambda>e. case e of Request rq \<Rightarrow> [rq] | Prompt _ \<Rightarrow> []) evs)"

definition payload :: "request \<Rightarrow> pydict" where
  "payload rq = (case params rq of None \<Rightarrow> [] | Some d \<Rightarrow> d) @ (case data rq of None \<Rightarrow> [] | Some d \<Rightarrow> d)"

definition payload_keys :: "event list \<Rightarrow> string set" where
  "payload_keys evs = set (concat (map (\<lambda>rq. keys (payload rq)) (requests evs)))"

definition payload_values :: "event list \<Rightarrow> pyval set" where
  "payload_values evs = set (concat (map (\<lambda>rq. map snd (payload rq)) (requests evs)))"

section \<open>Transport and Error Mapper\<close>

text \<open>
  \<^verbatim>\<open>response.json()\<close> of the HTTP library decodes the body. The empty body is not a JSON
  document, so decoding it raises, whatever the status.
\<close>

definition response_json :: "response \<Rightarrow> error + json" where
  "response_json r =
     (if content r = [] then Inl JSONDecodeError
      else case json_body r of None \<Rightarrow> Inl JSONDecodeError | Some j \<Rightarrow> Inr j)"

text \<open>
  Modelled from the spec: \<^verbatim>\<open>houston.raise_for_status_with_json\<close> (module
  \<^verbatim>\<open>quantrocket.houston\<close>) is not among the source files. The spec's Error Mapper:
  "given a response, if status is non-2xx, extract a JSON field (error or similar) when
  present and raise RemoteServiceError{status, message}; otherwise raise
  RemoteServiceError{status, raw_body}. A 204 (no content) is not an error". The field
  read is \<^verbatim>\<open>error\<close>, and it counts as present when the body decodes to an object
  whose \<^verbatim>\<open>error\<close> member is a string. \<open>None\<close> is a normal return.
\<close>

definition json_error_field :: "response \<Rightarrow> string option" where
  "json_error_field r =
     (case response_json r of
        Inr (JObj members) \<Rightarrow>
          (case map_of members ''error'' of Some (JStr msg) \<Rightarrow> Some msg | _ \<Rightarrow> None)
      | _ \<Rightarrow> None)"

definition raise_for_status_with_json :: "response \<Rightarrow> error option" where
  "raise_for_status_with_json r =
     (if 200 \<le> status_code r \<and> status_code r < 300 then None
      else case json_error_field r of
             Some msg \<Rightarrow> Some (RemoteServiceError (status_code r) msg)
           | None \<Rightarrow> Some (RemoteServiceError (status_code r) (content r)))"

section \<open>Typed operations of the database service (quantrocket/db.py)\<close>

text \<open>
  Every operation takes the service as a function from requests to responses and
  returns its result together with the events it caused. \<^verbatim>\<open>houston.get\<close>,
  \<^verbatim>\<open>houston.put\<close> and \<^verbatim>\<open>houston.post\<close> send one request with the method of their
  name.
\<close>

definition list_databases ::
  "(request \<Rightarrow> response) \<Rightarrow> pyval \<Rightarrow> pyval \<Rightarrow> pyval \<Rightarrow> pyval \<Rightarrow> json outcome" where
  "list_databases srv services codes detail expand =
     (let params0 = [];
          params1 = (if truthy services then setitem params0 ''services'' services else params0);
          params2 = (if truthy codes then setitem params1 ''codes'' codes else params1);
          params3 = (if truthy detail then setitem params2 ''detail'' detail else params2);
          params4 = (if truthy expand then setitem params3 ''expand'' expand else params3);
          rq = \<lparr>meth = GET, path = ''/db/databases'', params = Some params4, data = None\<rparr>;
          response = srv rq
      in ((case raise_for_status_with_json response of
             Some e \<Rightarrow> Inl e
           | None \<Rightarrow> response_json response),
          [Request rq]))"

definition get_s3_config :: "(request \<Rightarrow> response) \<Rightarrow> json outcome" where
  "get_s3_config srv =
     (let rq = \<lparr>meth = GET, path = ''/db/s3config'', params = None, data = None\<rparr>;
          response = srv rq
      in ((case raise_for_status_with_json response of
             Some e \<Rightarrow> Inl e
           | None \<Rightarrow> if content response = [] then Inr (JObj []) else response_json response),
          [Request rq]))"

text \<open>
  \<^verbatim>\<open>getpass.getpass\<close> is the terminal: a function from the prompt to what the user
  types.
\<close>

definition set_s3_config ::
  "(request \<Rightarrow> response) \<Rightarrow> (string \<Rightarrow> string) \<Rightarrow> pyval \<Rightarrow> pyval \<Rightarrow> pyval \<Rightarrow> pyval \<Rightarrow> json outcome" where
  "set_s3_config srv getpass access_key_id secret_access_key bucket region =
     (let prompted = (truthy access_key_id \<and> \<not> truthy secret_access_key);
          secret = (if prompted then PStr (getpass ''Enter AWS Secret Access Key: '')
                    else secret_access_key);
          data0 = [];
          data1 = (if truthy access_key_id then setitem data0 ''access_key_id'' access_key_id else data0);
          data2 = (if truthy secret then setitem data1 ''secret_access_key'' secret else data1);
          data3 = (if truthy bucket then setitem data2 ''bucket'' bucket else data2);
          data4 = (if truthy region then setitem data3 ''region'' region else data3);
          rq = \<lparr>meth = PUT, path = ''/db/s3config'', params = None, data = Some data4\<rparr>;
          response = srv rq
      in ((case raise_for_status_with_json response of
             Some e \<Rightarrow> Inl e
           | None \<Rightarrow> response_json response),
          (if prompted then [Prompt ''Enter AWS Secret Access Key: ''] else []) @ [Request rq]))"

definition s3_push_databases ::
  "(request \<Rightarrow> response) \<Rightarrow> pyval \<Rightarrow> pyval \<Rightarrow> json outcome" where
  "s3_push_databases srv services codes =
     (let params0 = [];
          params1 = (if truthy services then setitem params0 ''services'' services else params0);
          params2 = (if truthy codes then setitem params1 ''codes'' codes else params1);
          rq = \<lparr>meth = PUT, path = ''/db/s3'', params = Some params2, data = None\<rparr>;
          response = srv rq
      in ((case raise_for_status_with_json response of
             Some e \<Rightarrow> Inl e
           | None \<Rightarrow> response_json response),
          [Request rq]))"

definition s3_pull_databases ::
  "(request \<Rightarrow> response) \<Rightarrow> pyval \<Rightarrow> pyval \<Rightarrow> pyval \<Rightarrow> json outcome" where
  "s3_pull_databases srv services codes force =
     (let params0 = [];
          params1 = (if truthy services then setitem params0 ''services'' services else params0);
          params2 = (if truthy codes then setitem params1 ''codes'' codes else params1);
          params3 = (if truthy force then setitem params2 ''force'' force else params2);
          rq = \<lparr>meth = GET, path = ''/db/s3'', params = Some params3, data = None\<rparr>;
          response = srv rq
      in ((case raise_for_status_with_json response of
             Some e \<Rightarrow> Inl e
           | None \<Rightarrow> response_json response),
          [Request rq]))"

definition optimize_databases ::
  "(request \<Rightarrow> response) \<Rightarrow> pyval \<Rightarrow> pyval \<Rightarrow> json outcome" where
  "optimize_databases srv services codes =
     (let params0 = [];
          params1 = (if truthy codes then setitem params0 ''codes'' codes else params0);
          params2 = (if truthy services then setitem params1 ''services'' services else params1);
          rq = \<lparr>meth = POST, path = ''/db/optimizations'', params = Some params2, data = None\<rparr>;
          response = srv rq
      in ((case raise_for_status_with_json response of
             Some e \<Rightarrow> Inl e
           | None \<Rightarrow> response_json response),
          [Request rq]))"

section \<open>The command-line parser (quantrocket/cli/subcommands/realtime.py)\<close>

subsection \<open>Argument declarations\<close>

text \<open>
  One \<open>argument\<close> per \<^verbatim>\<open>add_argument\<close> call, with the keywords that decide what is
  stored: the option strings (none for a positional), \<^verbatim>\<open>dest\<close>, \<^verbatim>\<open>nargs\<close>,
  \<^verbatim>\<open>action\<close>, \<^verbatim>\<open>type\<close>, \<^verbatim>\<open>choices\<close> and \<^verbatim>\<open>required\<close>. \<^verbatim>\<open>metavar\<close> and the help
  texts only change what is printed.
\<close>

datatype nargs = NargsNone | ZeroOrMore | OneOrMore

datatype action = Store | StoreTrue | StoreConst pyval

datatype argtype = TypeStr | TypeInt

record argument =
  option_strings :: "string list"
  dest :: string
  nargs :: nargs
  action :: action
  argtype :: argtype
  choices :: "pyval list option"
  required :: bool

text \<open>
  The library derives \<^verbatim>\<open>dest\<close> from the first long option string (the first option
  string when none is long): the leading dashes are removed and every other dash
  becomes an underscore.
\<close>

definition infer_dest :: "string list \<Rightarrow> string" where
  "infer_dest opts =
     (let long = filter (\<lambda>s. take 2 s = ''--'') opts;
          chosen = (case long of s # _ \<Rightarrow> s | [] \<Rightarrow> (case opts of s # _ \<Rightarrow> s | [] \<Rightarrow> []))
      in map (\<lambda>c. if c = CHR ''-'' then CHR ''_'' else c) (dropWhile (\<lambda>c. c = CHR ''-'') chosen))"

definition positional :: "string \<Rightarrow> argument" where
  "positional d =
     \<lparr>option_strings = [], dest = d, nargs = NargsNone, action = Store, argtype = TypeStr,
      choices = None, required = True\<rparr>"

definition optional :: "string list \<Rightarrow> argument" where
  "optional opts =
     \<lparr>option_strings = opts, dest = infer_dest opts, nargs = NargsNone, action = Store,
      argtype = TypeStr, choices = None, required = False\<rparr>"

record subparser =
  name :: string
  arguments :: "argument list"
  func :: string

definition create_tick_db_parser :: subparser where
  "create_tick_db_parser =
     \<lparr>name = ''create-tick-db'',
      arguments =
        [positional ''code'',
         (optional [''-u'', ''--universes''])\<lparr>nargs := ZeroOrMore\<rparr>,
         (optional [''-i'', ''--conids''])\<lparr>nargs := ZeroOrMore\<rparr>,
         (optional [''-v'', ''--vendor''])\<lparr>choices := Some [PStr ''ib'']\<rparr>,
         (optional [''-f'', ''--fields''])\<lparr>nargs := ZeroOrMore\<rparr>,
         (optional [''-p'', ''--primary-exchange''])\<lparr>action := StoreTrue\<rparr>],
      func = ''quantrocket.realtime._cli_create_tick_db''\<rparr>"

definition create_agg_db_parser :: subparser where
  "create_agg_db_parser =
     \<lparr>name = ''create-agg-db'',
      arguments =
        [positional ''code'',
         (optional [''-f'', ''--from''])\<lparr>required := True, dest := ''from_code''\<rparr>,
         (optional [''-z'', ''--bar-size''])\<lparr>required := True\<rparr>,
         (optional [''-c'', ''--close''])\<lparr>nargs := ZeroOrMore, dest := ''close_fields''\<rparr>,
         (optional [''-o'', ''--open''])\<lparr>nargs := ZeroOrMore, dest := ''open_fields''\<rparr>,
         (optional [''-g'', ''--high''])\<lparr>nargs := ZeroOrMore, dest := ''high_fields''\<rparr>,
         (optional [''-l'', ''--low''])\<lparr>nargs := ZeroOrMore, dest := ''low_fields''\<rparr>,
         (optional [''-m'', ''--mean''])\<lparr>nargs := ZeroOrMore, dest := ''mean_fields''\<rparr>],
      func = ''quantrocket.realtime._cli_create_agg_db''\<rparr>"

definition config_parser :: subparser where
  "config_parser =
     \<lparr>name = ''config'',
      arguments = [positional ''code''],
      func = ''quantrocket.realtime._cli_get_db_config''\<rparr>"

definition drop_db_parser :: subparser where
  "drop_db_parser =
     \<lparr>name = ''drop-db'',
      arguments =
        [positional ''code'',
         (optional [''--confirm-by-typing-db-code-again''])\<lparr>required := True\<rparr>,
         (optional [''--cascade''])\<lparr>action := StoreTrue\<rparr>],
      func = ''quantrocket.realtime._cli_drop_db''\<rparr>"

definition collect_parser :: subparser where
  "collect_parser =
     \<lparr>name = ''collect'',
      arguments =
        [(positional ''codes'')\<lparr>nargs := OneOrMore\<rparr>,
         (optional [''-i'', ''--conids''])\<lparr>nargs := ZeroOrMore\<rparr>,
         (optional [''-u'', ''--universes''])\<lparr>nargs := ZeroOrMore\<rparr>,
         (optional [''-f'', ''--fields''])\<lparr>nargs := ZeroOrMore\<rparr>,
         optional [''--until''],
         (optional [''-s'', ''--snapshot''])\<lparr>action := StoreTrue\<rparr>,
         (optional [''-w'', ''--wait''])\<lparr>action := StoreTrue\<rparr>],
      func = ''quantrocket.realtime._cli_collect_market_data''\<rparr>"

definition active_parser :: subparser where
  "active_parser =
     \<lparr>name = ''active'',
      arguments = [(optional [''-d'', ''--detail''])\<lparr>action := StoreTrue\<rparr>],
      func = ''quantrocket.realtime._cli_get_active_collections''\<rparr>"

definition cancel_parser :: subparser where
  "cancel_parser =
     \<lparr>name = ''cancel'',
      arguments =
        [(positional ''codes'')\<lparr>nargs := ZeroOrMore\<rparr>,
         (optional [''-i'', ''--conids''])\<lparr>nargs := ZeroOrMore\<rparr>,
         (optional [''-u'', ''--universes''])\<lparr>nargs := ZeroOrMore\<rparr>,
         (optional [''-a'', ''--all''])\<lparr>action := StoreTrue, dest := ''cancel_all''\<rparr>],
      func = ''quantrocket.realtime._cli_cancel_market_data''\<rparr>"

definition get_parser :: subparser where
  "get_parser =
     \<lparr>name = ''get'',
      arguments =
        [positional ''code'',
         optional [''-s'', ''--start-date''],
         optional [''-e'', ''--end-date''],
         (optional [''-u'', ''--universes''])\<lparr>nargs := ZeroOrMore\<rparr>,
         (optional [''-i'', ''--conids''])\<lparr>argtype := TypeInt, nargs := ZeroOrMore\<rparr>,
         (optional [''--exclude-universes''])\<lparr>nargs := ZeroOrMore\<rparr>,
         (optional [''--exclude-conids''])\<lparr>argtype := TypeInt, nargs := ZeroOrMore\<rparr>,
         (optional [''-o'', ''--outfile''])\<lparr>dest := ''filepath_or_buffer''\<rparr>,
         (optional [''-j'', ''--json''])\<lparr>action := StoreConst (PStr ''json''), dest := ''output''\<rparr>,
         (optional [''-f'', ''--fields''])\<lparr>nargs := ZeroOrMore\<rparr>],
      func = ''quantrocket.realtime._cli_download_market_data_file''\<rparr>"

definition subparsers :: "subparser list" where
  "subparsers =
     [create_tick_db_parser, create_agg_db_parser, config_parser, drop_db_parser,
      collect_parser, active_parser, cancel_parser, get_parser]"

subsection \<open>The argument-parsing library\<close>

text \<open>
  \<^verbatim>\<open>type=int\<close> converts a value with Python's \<^verbatim>\<open>int\<close>: surrounding white space is
  dropped, a sign may lead, and the digits may be grouped by single underscores.
  Anything else raises, which the library reports as an invalid value.
\<close>

definition is_digit :: "char \<Rightarrow> bool" where
  "is_digit c = (c \<in> set ''0123456789'')"

definition is_space :: "char \<Rightarrow> bool" where
  "is_space c =
     (c \<in> set [CHR '' '', CHR 0x09, CHR 0x0A, CHR 0x0B, CHR 0x0C, CHR 0x0D,
               CHR 0x1C, CHR 0x1D, CHR 0x1E, CHR 0x1F])"

definition strip :: "string \<Rightarrow> string" where
  "strip s = rev (dropWhile is_space (rev (dropWhile is_space s)))"

definition digit_value :: "char \<Rightarrow> int option" where
  "digit_value c = (if is_digit c then Some (int (of_char c) - 48) else None)"

fun int_digits :: "int \<Rightarrow> string \<Rightarrow> int option" where
  "int_digits acc [] = None"
| "int_digits acc [c] = map_option (\<lambda>d. acc * 10 + d) (digit_value c)"
| "int_digits acc (c # c' # cs) =
     (case digit_value c of
        None \<Rightarrow> None
      | Some d \<Rightarrow>
          if c' = CHR ''_'' then int_digits (acc * 10 + d) cs
          else int_digits (acc * 10 + d) (c' # cs))"

definition py_int :: "string \<Rightarrow> int option" where
  "py_int s =
     (case strip s of
        [] \<Rightarrow> None
      | c # cs \<Rightarrow>
          if c = CHR ''-'' then map_option uminus (int_digits 0 cs)
          else if c = CHR ''+'' then int_digits 0 cs
          else int_digits 0 (c # cs))"

text \<open>
  How the library reads one token of the command line. A token that does not start
  with a dash is an argument. A declared option string (or \<^verbatim>\<open>-h\<close>, \<^verbatim>\<open>--help\<close>, which
  every parser has) is that option. Of the other tokens that start with a dash, the
  single dash, a negative number (\<^verbatim>\<open>^-\d+$|^-\d*\.\d+$\<close>; no parser here declares an
  option that looks like one) and a token with a space are arguments, and the rest is
  not recognized. The library would also accept an abbreviated long option,
  \<^verbatim>\<open>--opt=value\<close>, a value attached to a short option, clustered short flags and the
  separator \<^verbatim>\<open>--\<close>; this model covers command lines that write each option as it is
  declared, and counts those tokens as not recognized.
\<close>

datatype token_class = Argument | Flag argument | Help | Unrecognized

definition negative_number_like :: "string \<Rightarrow> bool" where
  "negative_number_like t =
     (case t of
        [] \<Rightarrow> False
      | c # cs \<Rightarrow>
          c = CHR ''-'' \<and>
          (let body = (if cs \<noteq> [] \<and> last cs = CHR 0x0A then butlast cs else cs);
               whole = takeWhile is_digit body;
               rest = dropWhile is_digit body
           in (whole \<noteq> [] \<and> rest = []) \<or>
              (case rest of
                 [] \<Rightarrow> False
               | d # frac \<Rightarrow> d = CHR ''.'' \<and> frac \<noteq> [] \<and> list_all is_digit frac)))"

definition parse_optional :: "argument list \<Rightarrow> string \<Rightarrow> token_class" where
  "parse_optional args t =
     (if t = [] then Argument
      else if hd t \<noteq> CHR ''-'' then Argument
      else if t = ''-h'' \<or> t = ''--help'' then Help
      else case find (\<lambda>a. t \<in> set (option_strings a)) args of
             Some a \<Rightarrow> Flag a
           | None \<Rightarrow>
               if length t = 1 then Argument
               else if negative_number_like t then Argument
               else if CHR '' '' \<in> set t then Argument
               else Unrecognized)"

text \<open>
  The library takes the options in order; an option with \<^verbatim>\<open>nargs\<close> takes the
  arguments that follow it, up to the next option. So the command line is a leading
  run of arguments and then groups of one option token and the run that follows it.
\<close>

fun chunks :: "argument list \<Rightarrow> string list \<Rightarrow> string list \<times> (string \<times> string list) list" where
  "chunks args [] = ([], [])"
| "chunks args (t # ts) =
     (case chunks args ts of
        (run, groups) \<Rightarrow>
          if parse_optional args t = Argument then (t # run, groups)
          else ([], (t, run) # groups))"

definition get_value :: "argument \<Rightarrow> string \<Rightarrow> error + pyval" where
  "get_value a s =
     (case (case argtype a of
              TypeStr \<Rightarrow> Some (PStr s)
            | TypeInt \<Rightarrow> map_option PInt (py_int s)) of
        None \<Rightarrow> Inl (ArgumentError ''invalid value'')
      | Some v \<Rightarrow>
          (case choices a of
             None \<Rightarrow> Inr v
           | Some cs \<Rightarrow> if v \<in> set cs then Inr v else Inl (ArgumentError ''invalid choice'')))"

fun get_values :: "argument \<Rightarrow> string list \<Rightarrow> error + pyval list" where
  "get_values a [] = Inr []"
| "get_values a (s # ss) =
     (case get_value a s of
        Inl e \<Rightarrow> Inl e
      | Inr v \<Rightarrow> (case get_values a ss of Inl e \<Rightarrow> Inl e | Inr vs \<Rightarrow> Inr (v # vs)))"

text \<open>
  The state of one parse: the namespace, the positional still to be filled (every
  subcommand declares at most one), the destinations of the options seen, and the
  tokens nothing took (the library reports them when the parse is over).
\<close>

record parse_state =
  namespace :: pydict
  pending :: "argument option"
  seen :: "string list"
  extras :: "string list"

definition store :: "parse_state \<Rightarrow> argument \<Rightarrow> pyval \<Rightarrow> parse_state" where
  "store st a v = st\<lparr>namespace := setitem (namespace st) (dest a) v, seen := dest a # seen st\<rparr>"

definition consume_positionals :: "parse_state \<Rightarrow> string list \<Rightarrow> error + parse_state" where
  "consume_positionals st run =
     (case run of
        [] \<Rightarrow> Inr st
      | s # ss \<Rightarrow>
          (case pending st of
             None \<Rightarrow> Inr (st\<lparr>extras := extras st @ run\<rparr>)
           | Some p \<Rightarrow>
               (case nargs p of
                  NargsNone \<Rightarrow>
                    (case get_value p s of
                       Inl e \<Rightarrow> Inl e
                     | Inr v \<Rightarrow>
                         Inr (st\<lparr>namespace := setitem (namespace st) (dest p) v,
                                 pending := None, extras := extras st @ ss\<rparr>))
                | _ \<Rightarrow>
                    (case get_values p run of
                       Inl e \<Rightarrow> Inl e
                     | Inr vs \<Rightarrow>
                         Inr (st\<lparr>namespace := setitem (namespace st) (dest p) (PList vs),
                                 pending := None\<rparr>)))))"

definition consume_optional ::
  "argument list \<Rightarrow> parse_state \<Rightarrow> string \<times> string list \<Rightarrow> error + parse_state" where
  "consume_optional args st g =
     (case g of
        (t, run) \<Rightarrow>
          (case parse_optional args t of
             Help \<Rightarrow> Inl HelpExit
           | Unrecognized \<Rightarrow> consume_positionals (st\<lparr>extras := extras st @ [t]\<rparr>) run
           | Argument \<Rightarrow> consume_positionals st (t # run)
           | Flag a \<Rightarrow>
               (case action a of
                  StoreTrue \<Rightarrow> consume_positionals (store st a (PBool True)) run
                | StoreConst c \<Rightarrow> consume_positionals (store st a c) run
                | Store \<Rightarrow>
                    (case nargs a of
                       NargsNone \<Rightarrow>
                         (case run of
                            [] \<Rightarrow> Inl (ArgumentError ''expected one argument'')
                          | s # ss \<Rightarrow>
                              (case get_value a s of
                                 Inl e \<Rightarrow> Inl e
                               | Inr v \<Rightarrow> consume_positionals (store st a v) ss))
                     | ZeroOrMore \<Rightarrow>
                         (case get_values a run of
                            Inl e \<Rightarrow> Inl e
                          | Inr vs \<Rightarrow> Inr (store st a (PList vs)))
                     | OneOrMore \<Rightarrow>
                         (if run = [] then Inl (ArgumentError ''expected at least one argument'')
                          else case get_values a run of
                                 Inl e \<Rightarrow> Inl e
                               | Inr vs \<Rightarrow> Inr (store st a (PList vs)))))))"

fun consume_groups ::
  "argument list \<Rightarrow> parse_state \<Rightarrow> (string \<times> string list) list \<Rightarrow> error + parse_state" where
  "consume_groups args st [] = Inr st"
| "consume_groups args st (g # gs) =
     (case consume_optional args st g of
        Inl e \<Rightarrow> Inl e
      | Inr st' \<Rightarrow> consume_groups args st' gs)"

text \<open>
  When the command line is used up: a positional with \<^verbatim>\<open>nargs="*"\<close> that got nothing
  is the empty list, any other positional that got nothing is missing; then the
  required options that were not seen are missing; then tokens nothing took are an
  error.
\<close>

definition finish :: "argument list \<Rightarrow> parse_state \<Rightarrow> error + pydict" where
  "finish args st =
     (case (case pending st of
              None \<Rightarrow> Inr st
            | Some p \<Rightarrow>
                if nargs p = ZeroOrMore
                then Inr (st\<lparr>namespace := setitem (namespace st) (dest p) (PList []), pending := None\<rparr>)
                else Inl (ArgumentError ''the following arguments are required'')) of
        Inl e \<Rightarrow> Inl e
      | Inr st' \<Rightarrow>
          if list_ex (\<lambda>a. option_strings a \<noteq> [] \<and> required a \<and> dest a \<notin> set (seen st')) args
          then Inl (ArgumentError ''the following arguments are required'')
          else if extras st' \<noteq> [] then Inl (ArgumentError ''unrecognized arguments'')
          else Inr (namespace st'))"

definition default_value :: "argument \<Rightarrow> pyval" where
  "default_value a = (case action a of StoreTrue \<Rightarrow> PBool False | _ \<Rightarrow> PNone)"

definition initial_state :: "subparser \<Rightarrow> parse_state" where
  "initial_state p =
     \<lparr>namespace = map (\<lambda>a. (dest a, default_value a)) (arguments p) @
                    [(''func'', PStr (func p))],
      pending = find (\<lambda>a. option_strings a = []) (arguments p),
      seen = [], extras = []\<rparr>"

definition parse_args :: "subparser \<Rightarrow> string list \<Rightarrow> error + pydict" where
  "parse_args p argv =
     (case chunks (arguments p) argv of
        (run, groups) \<Rightarrow>
          (case consume_positionals (initial_state p) run of
             Inl e \<Rightarrow> Inl e
           | Inr st1 \<Rightarrow>
               (case consume_groups (arguments p) st1 groups of
                  Inl e \<Rightarrow> Inl e
                | Inr st2 \<Rightarrow> finish (arguments p) st2)))"

text \<open>
  The \<^verbatim>\<open>realtime\<close> parser itself has no argument but the required subcommand
  (\<^verbatim>\<open>dest="subcommand"\<close>): the first argument token names the subparser that gets
  every token after it. \<open>extra\<close> records that a token before it was not recognized.
\<close>

fun realtime_parse_args :: "bool \<Rightarrow> string list \<Rightarrow> error + pydict" where
  "realtime_parse_args extra [] = Inl (ArgumentError ''the following arguments are required'')"
| "realtime_parse_args extra (t # ts) =
     (case parse_optional [] t of
        Help \<Rightarrow> Inl HelpExit
      | Argument \<Rightarrow>
          (case find (\<lambda>p. name p = t) subparsers of
             None \<Rightarrow> Inl (ArgumentError ''invalid choice'')
           | Some p \<Rightarrow>
               (case parse_args p ts of
                  Inl e \<Rightarrow> Inl e
                | Inr ns \<Rightarrow>
                    if extra then Inl (ArgumentError ''unrecognized arguments'')
                    else Inr ((''subcommand'', PStr t) # ns)))
      | _ \<Rightarrow> realtime_parse_args True ts)"

section \<open>Typed operations of the real-time service and the dispatch\<close>

text \<open>
  Modelled from the spec: the module \<^verbatim>\<open>quantrocket.realtime\<close>, whose functions the
  parsers name in \<^verbatim>\<open>set_defaults(func=...)\<close>, is not among the source files, and
  neither is the program that calls the named function with the parsed namespace.
  The spec's words for them: each operation "collects only non-empty optional
  parameters into a request payload (omission, not null, for absent optional fields)",
  sends one request (section 6: \<^verbatim>\<open>POST /realtime/config/{code}\<close> create tick db,
  \<^verbatim>\<open>POST /realtime/agg_config/{code}\<close> create agg db, \<^verbatim>\<open>GET /realtime/config/{code}\<close>
  get config, \<^verbatim>\<open>DELETE /realtime/config/{code}\<close> drop db,
  \<^verbatim>\<open>POST /realtime/collections\<close> start collection, \<^verbatim>\<open>GET /realtime/collections\<close> list
  active, \<^verbatim>\<open>DELETE /realtime/collections\<close> cancel, \<^verbatim>\<open>GET /realtime/{code}.csv\<close> or
  \<^verbatim>\<open>.json\<close> download), applies the Error Mapper and "returns decoded JSON", where "a 204
  (no content) is not an error and decodes to an empty result". The payload of
  \<^verbatim>\<open>create-tick-db\<close> starts with the code (section 8). \<^verbatim>\<open>drop-db\<close> fails with
  \<^verbatim>\<open>ValidationError\<close> "before calling the network" when the repeated code differs from
  the code, and \<^verbatim>\<open>collect\<close> fails with \<^verbatim>\<open>ValidationError\<close> "before any network call"
  when \<^verbatim>\<open>wait\<close> is set without \<^verbatim>\<open>snapshot\<close>. The download's "output format is CSV by
  default, JSON if requested". "Each subcommand maps 1:1 to a Typed Operation".
\<close>

definition nonempty_params :: "pydict \<Rightarrow> pydict" where
  "nonempty_params d = filter (\<lambda>kv. truthy (snd kv)) d"

definition decode_response :: "response \<Rightarrow> error + json" where
  "decode_response r =
     (case raise_for_status_with_json r of
        Some e \<Rightarrow> Inl e
      | None \<Rightarrow> if content r = [] then Inr (JObj []) else response_json r)"

definition call :: "(request \<Rightarrow> response) \<Rightarrow> request \<Rightarrow> json outcome" where
  "call srv rq = (decode_response (srv rq), [Request rq])"

definition create_tick_db ::
  "(request \<Rightarrow> response) \<Rightarrow> string \<Rightarrow> pyval \<Rightarrow> pyval \<Rightarrow> pyval \<Rightarrow> pyval \<Rightarrow> pyval \<Rightarrow> json outcome" where
  "create_tick_db srv code universes conids vendor fields' primary_exchange =
     call srv
       \<lparr>meth = POST, path = ''/realtime/config/'' @ code,
        params = Some ((''code'', PStr code) #
          nonempty_params
            [(''universes'', universes), (''conids'', conids), (''vendor'', vendor),
             (''fields'', fields'), (''primary_exchange'', primary_exchange)]),
        data = None\<rparr>"

definition create_agg_db ::
  "(request \<Rightarrow> response) \<Rightarrow> string \<Rightarrow> pyval \<Rightarrow> pyval \<Rightarrow> pyval \<Rightarrow> pyval \<Rightarrow> pyval \<Rightarrow> pyval \<Rightarrow> pyval \<Rightarrow> json outcome" where
  "create_agg_db srv code from_code bar_size close_fields open_fields high_fields low_fields mean_fields =
     call srv
       \<lparr>meth = POST, path = ''/realtime/agg_config/'' @ code,
        params = Some ((''code'', PStr code) #
          nonempty_params
            [(''from_code'', from_code), (''bar_size'', bar_size),
             (''close_fields'', close_fields), (''open_fields'', open_fields),
             (''high_fields'', high_fields), (''low_fields'', low_fields),
             (''mean_fields'', mean_fields)]),
        data = None\<rparr>"

definition get_db_config :: "(request \<Rightarrow> response) \<Rightarrow> string \<Rightarrow> json outcome" where
  "get_db_config srv code =
     call srv \<lparr>meth = GET, path = ''/realtime/config/'' @ code, params = None, data = None\<rparr>"

definition drop_db ::
  "(request \<Rightarrow> response) \<Rightarrow> string \<Rightarrow> pyval \<Rightarrow> pyval \<Rightarrow> json outcome" where
  "drop_db srv code confirm_by_typing_db_code_again cascade =
     (if confirm_by_typing_db_code_again \<noteq> PStr code
      then (Inl (ValidationError ''the confirmation does not match the database code''), [])
      else call srv
             \<lparr>meth = DELETE, path = ''/realtime/config/'' @ code,
              params = Some (nonempty_params [(''cascade'', cascade)]), data = None\<rparr>)"

definition collect_market_data ::
  "(request \<Rightarrow> response) \<Rightarrow> pyval \<Rightarrow> pyval \<Rightarrow> pyval \<Rightarrow> pyval \<Rightarrow> pyval \<Rightarrow> pyval \<Rightarrow> pyval \<Rightarrow> json outcome" where
  "collect_market_data srv codes conids universes fields' until snapshot wait =
     (if truthy wait \<and> \<not> truthy snapshot
      then (Inl (ValidationError ''wait requires snapshot''), [])
      else call srv
             \<lparr>meth = POST, path = ''/realtime/collections'',
              params = Some (nonempty_params
                [(''codes'', codes), (''conids'', conids), (''universes'', universes),
                 (''fields'', fields'), (''until'', until), (''snapshot'', snapshot),
                 (''wait'', wait)]),
              data = None\<rparr>)"

definition get_active_collections :: "(request \<Rightarrow> response) \<Rightarrow> pyval \<Rightarrow> json outcome" where
  "get_active_collections srv detail =
     call srv
       \<lparr>meth = GET, path = ''/realtime/collections'',
        params = Some (nonempty_params [(''detail'', detail)]), data = None\<rparr>"

definition cancel_market_data ::
  "(request \<Rightarrow> response) \<Rightarrow> pyval \<Rightarrow> pyval \<Rightarrow> pyval \<Rightarrow> pyval \<Rightarrow> json outcome" where
  "cancel_market_data srv codes conids universes cancel_all =
     call srv
       \<lparr>meth = DELETE, path = ''/realtime/collections'',
        params = Some (nonempty_params
          [(''codes'', codes), (''conids'', conids), (''universes'', universes),
           (''cancel_all'', cancel_all)]),
        data = None\<rparr>"

text \<open>
  The download writes the body it gets to the file or to standard output; its result
  here is that body.
\<close>

definition download_market_data_file ::
  "(request \<Rightarrow> response) \<Rightarrow> string \<Rightarrow> pyval \<Rightarrow> pyval \<Rightarrow> pyval \<Rightarrow> pyval \<Rightarrow> pyval \<Rightarrow> pyval \<Rightarrow> pyval \<Rightarrow> pyval \<Rightarrow> pyval \<Rightarrow> json outcome" where
  "download_market_data_file srv code filepath_or_buffer output start_date end_date
       universes conids exclude_universes exclude_conids fields' =
     (let fmt = (if output = PStr ''json'' then ''json'' else ''csv'');
          rq = \<lparr>meth = GET, path = ''/realtime/'' @ code @ ''.'' @ fmt,
                params = Some (nonempty_params
                  [(''start_date'', start_date), (''end_date'', end_date),
                   (''universes'', universes), (''conids'', conids),
                   (''exclude_universes'', exclude_universes),
                   (''exclude_conids'', exclude_conids), (''fields'', fields')]),
                data = None\<rparr>;
          response = srv rq
      in ((case raise_for_status_with_json response of
             Some e \<Rightarrow> Inl e
           | None \<Rightarrow> Inr (JStr (content response))),
          [Request rq]))"

text \<open>
  The namespace gives every declared destination a value, so a lookup that misses
  does not arise; it is \<^verbatim>\<open>None\<close> here. A positional with \<^verbatim>\<open>nargs=None\<close> is a string.
\<close>

definition getarg :: "pydict \<Rightarrow> string \<Rightarrow> pyval" where
  "getarg ns k = (case map_of ns k of Some v \<Rightarrow> v | None \<Rightarrow> PNone)"

definition getstr :: "pydict \<Rightarrow> string \<Rightarrow> string" where
  "getstr ns k = (case map_of ns k of Some (PStr s) \<Rightarrow> s | _ \<Rightarrow> [])"

definition dispatch :: "(request \<Rightarrow> response) \<Rightarrow> pydict \<Rightarrow> json outcome" where
  "dispatch srv ns =
     (let f = getstr ns ''func'' in
      if f = ''quantrocket.realtime._cli_create_tick_db'' then
        create_tick_db srv (getstr ns ''code'') (getarg ns ''universes'') (getarg ns ''conids'')
          (getarg ns ''vendor'') (getarg ns ''fields'') (getarg ns ''primary_exchange'')
      else if f = ''quantrocket.realtime._cli_create_agg_db'' then
        create_agg_db srv (getstr ns ''code'') (getarg ns ''from_code'') (getarg ns ''bar_size'')
          (getarg ns ''close_fields'') (getarg ns ''open_fields'') (getarg ns ''high_fields'')
          (getarg ns ''low_fields'') (getarg ns ''mean_fields'')
      else if f = ''quantrocket.realtime._cli_get_db_config'' then
        get_db_config srv (getstr ns ''code'')
      else if f = ''quantrocket.realtime._cli_drop_db'' then
        drop_db srv (getstr ns ''code'') (getarg ns ''confirm_by_typing_db_code_again'')
          (getarg ns ''cascade'')
      else if f = ''quantrocket.realtime._cli_collect_market_data'' then
        collect_market_data srv (getarg ns ''codes'') (getarg ns ''conids'')
          (getarg ns ''universes'') (getarg ns ''fields'') (getarg ns ''until'')
          (getarg ns ''snapshot'') (getarg ns ''wait'')
      else if f = ''quantrocket.realtime._cli_get_active_collections'' then
        get_active_collections srv (getarg ns ''detail'')
      else if f = ''quantrocket.realtime._cli_cancel_market_data'' then
        cancel_market_data srv (getarg ns ''codes'') (getarg ns ''conids'')
          (getarg ns ''universes'') (getarg ns ''cancel_all'')
      else
        download_market_data_file srv (getstr ns ''code'') (getarg ns ''filepath_or_buffer'')
          (getarg ns ''output'') (getarg ns ''start_date'') (getarg ns ''end_date'')
          (getarg ns ''universes'') (getarg ns ''conids'') (getarg ns ''exclude_universes'')
          (getarg ns ''exclude_conids'') (getarg ns ''fields''))"

text \<open>
  One invocation of \<^verbatim>\<open>quantrocket realtime ...\<close>: \<open>argv\<close> holds the tokens after
  \<^verbatim>\<open>realtime\<close>. A command line the parser refuses ends the program before anything is
  called.
\<close>

definition realtime_cli :: "(request \<Rightarrow> response) \<Rightarrow> string list \<Rightarrow> json outcome" where
  "realtime_cli srv argv =
     (case realtime_parse_args False argv of
        Inl e \<Rightarrow> (Inl e, [])
      | Inr ns \<Rightarrow> dispatch srv ns)"

text \<open>Fixtures for the concrete cases: services with one fixed answer, and a terminal.\<close>

definition no_content_server :: "request \<Rightarrow> response" where
  "no_content_server rq = \<lparr>status_code = 204, content = [], json_body = None\<rparr>"

definition not_found_server :: "request \<Rightarrow> response" where
  "not_found_server rq =
     \<lparr>status_code = 404, content = ''{\"error\": \"not found\"}'',
      json_body = Some (JObj [(''error'', JStr ''not found'')])\<rparr>"

definition ok_server :: "request \<Rightarrow> response" where
  "ok_server rq =
     \<lparr>status_code = 200, content = ''{\"status\": \"success\"}'',
      json_body = Some (JObj [(''status'', JStr ''success'')])\<rparr>"

definition typed_secret :: "string \<Rightarrow> string" where
  "typed_secret prompt = ''s3cr3t''"

section \<open>Properties of the database operations\<close>

subsection \<open>Payloads\<close>


lemma keys_setitem: "set (keys (setitem d k v)) = insert k (set (keys d))"
  by (auto simp: keys_def setitem_def update_keys)

lemma values_setitem: "set (map snd (setitem d k v)) \<subseteq> insert v (set (map snd d))"
  unfolding setitem_def by (induction d) auto

lemma truthy_values_setitem:
  "truthy v \<Longrightarrow> list_all truthy (map snd d) \<Longrightarrow> list_all truthy (map snd (setitem d k v))"
  unfolding setitem_def by (induction d) auto

lemma list_databases_keys:
  "payload_keys (snd (list_databases srv services codes detail expand)) =
     {k. (k = ''services'' \<and> truthy services) \<or> (k = ''codes'' \<and> truthy codes) \<or>
         (k = ''detail'' \<and> truthy detail) \<or> (k = ''expand'' \<and> truthy expand)}"
  by (auto simp: list_databases_def Let_def payload_keys_def requests_def payload_def keys_setitem
      keys_def[of "[]"])

lemma set_s3_config_keys:
  "payload_keys (snd (set_s3_config srv getpass access_key_id secret_access_key bucket region)) =
     {k. (k = ''access_key_id'' \<and> truthy access_key_id) \<or>
         (k = ''secret_access_key'' \<and>
            (truthy secret_access_key \<or>
             (truthy access_key_id \<and> getpass ''Enter AWS Secret Access Key: '' \<noteq> []))) \<or>
         (k = ''bucket'' \<and> truthy bucket) \<or> (k = ''region'' \<and> truthy region)}"
  by (auto simp: set_s3_config_def Let_def payload_keys_def requests_def payload_def keys_setitem
      keys_def[of "[]"])

lemma s3_push_databases_keys:
  "payload_keys (snd (s3_push_databases srv services codes)) =
     {k. (k = ''services'' \<and> truthy services) \<or> (k = ''codes'' \<and> truthy codes)}"
  by (auto simp: s3_push_databases_def Let_def payload_keys_def requests_def payload_def keys_setitem
      keys_def[of "[]"])

lemma s3_pull_databases_keys:
  "payload_keys (snd (s3_pull_databases srv services codes force)) =
     {k. (k = ''services'' \<and> truthy services) \<or> (k = ''codes'' \<and> truthy codes) \<or>
         (k = ''force'' \<and> truthy force)}"
  by (auto simp: s3_pull_databases_def Let_def payload_keys_def requests_def payload_def keys_setitem
      keys_def[of "[]"])

lemma optimize_databases_keys:
  "payload_keys (snd (optimize_databases srv services codes)) =
     {k. (k = ''services'' \<and> truthy services) \<or> (k = ''codes'' \<and> truthy codes)}"
  by (auto simp: optimize_databases_def Let_def payload_keys_def requests_def payload_def keys_setitem
      keys_def[of "[]"])

lemma get_s3_config_keys: "payload_keys (snd (get_s3_config srv)) = {}"
  by (simp add: get_s3_config_def Let_def payload_keys_def requests_def payload_def keys_def)

lemma payload_values_single:
  "payload_values [Request \<lparr>meth = m, path = p, params = Some d, data = None\<rparr>] = set (map snd d)"
  "payload_values [Request \<lparr>meth = m, path = p, params = None, data = Some d\<rparr>] = set (map snd d)"
  "payload_values (Prompt s # evs) = payload_values evs"
  by (simp_all add: payload_values_def requests_def payload_def)

lemma truthy_if_setitem:
  "list_all truthy (map snd d) \<Longrightarrow>
   list_all truthy (map snd (if truthy v then setitem d k v else d))"
  by (simp add: truthy_values_setitem)

lemma list_databases_values:
  "\<forall>v \<in> payload_values (snd (list_databases srv services codes detail expand)). truthy v"
  unfolding list_databases_def Let_def snd_conv payload_values_single list_all_iff [symmetric]
  by (intro truthy_if_setitem) simp

lemma payload_values_prompted:
  "payload_values ((if b then [Prompt s] else []) @ evs) = payload_values evs"
  by (simp add: payload_values_def requests_def)

lemma set_s3_config_values:
  "\<forall>v \<in> payload_values (snd (set_s3_config srv getpass access_key_id secret_access_key bucket region)). truthy v"
  unfolding set_s3_config_def Let_def snd_conv payload_values_prompted payload_values_single
    list_all_iff [symmetric]
  by (intro truthy_if_setitem) simp

lemma s3_push_databases_values:
  "\<forall>v \<in> payload_values (snd (s3_push_databases srv services codes)). truthy v"
  unfolding s3_push_databases_def Let_def snd_conv payload_values_single list_all_iff [symmetric]
  by (intro truthy_if_setitem) simp

lemma s3_pull_databases_values:
  "\<forall>v \<in> payload_values (snd (s3_pull_databases srv services codes force)). truthy v"
  unfolding s3_pull_databases_def Let_def snd_conv payload_values_single list_all_iff [symmetric]
  by (intro truthy_if_setitem) simp

lemma optimize_databases_values:
  "\<forall>v \<in> payload_values (snd (optimize_databases srv services codes)). truthy v"
  unfolding optimize_databases_def Let_def snd_conv payload_values_single list_all_iff [symmetric]
  by (intro truthy_if_setitem) simp

lemma not_truthy_None: "\<forall>v \<in> S. truthy v \<Longrightarrow> PNone \<notin> S"
  by auto

subsection \<open>Methods and paths\<close>

text \<open>
  Claim C7. Each database operation sends exactly one request, with the method and the
  path of the table: \<^verbatim>\<open>list_databases\<close> GET /db/databases, \<^verbatim>\<open>get_s3_config\<close> GET and
  \<^verbatim>\<open>set_s3_config\<close> PUT on /db/s3config, \<^verbatim>\<open>s3_push_databases\<close> PUT and
  \<^verbatim>\<open>s3_pull_databases\<close> GET on /db/s3, \<^verbatim>\<open>optimize_databases\<close> POST
  /db/optimizations, whatever the arguments and whatever the service answers.
\<close>

theorem db_methods_and_paths:
  "map (\<lambda>rq. (meth rq, path rq)) (requests (snd (list_databases srv services codes detail expand)))
     = [(GET, ''/db/databases'')] \<and>
   map (\<lambda>rq. (meth rq, path rq)) (requests (snd (get_s3_config srv)))
     = [(GET, ''/db/s3config'')] \<and>
   map (\<lambda>rq. (meth rq, path rq))
       (requests (snd (set_s3_config srv getpass access_key_id secret_access_key bucket region)))
     = [(PUT, ''/db/s3config'')] \<and>
   map (\<lambda>rq. (meth rq, path rq)) (requests (snd (s3_push_databases srv services codes)))
     = [(PUT, ''/db/s3'')] \<and>
   map (\<lambda>rq. (meth rq, path rq)) (requests (snd (s3_pull_databases srv services codes force)))
     = [(GET, ''/db/s3'')] \<and>
   map (\<lambda>rq. (meth rq, path rq)) (requests (snd (optimize_databases srv services codes)))
     = [(POST, ''/db/optimizations'')]"
  by (simp add: list_databases_def get_s3_config_def set_s3_config_def s3_push_databases_def
      s3_pull_databases_def optimize_databases_def Let_def requests_def)

subsection \<open>Decoding a response without content\<close>

lemma not_error_204: "status_code r = 204 \<Longrightarrow> raise_for_status_with_json r = None"
  by (simp add: raise_for_status_with_json_def)

text \<open>
  Claim C3 says that every operation decodes a 204 with an empty body to an empty
  mapping. \<^verbatim>\<open>s3_push_databases\<close> does not: the service answers 204 with no body, the
  status is not an error, and decoding the empty body raises.
\<close>

theorem no_content_counterexample:
  "status_code (no_content_server \<lparr>meth = PUT, path = ''/db/s3'', params = Some [], data = None\<rparr>) = 204 \<and>
   s3_push_databases no_content_server PNone PNone =
     (Inl JSONDecodeError,
      [Request \<lparr>meth = PUT, path = ''/db/s3'', params = Some [], data = None\<rparr>])"
  by (simp add: s3_push_databases_def no_content_server_def Let_def raise_for_status_with_json_def
      response_json_def)

text \<open>
  Claim C3, amended. \<^verbatim>\<open>get_s3_config\<close>, which tests for the empty body, decodes a 204
  with an empty body to the empty mapping and raises nothing. The other database
  operations do not map a 204 to \<^verbatim>\<open>RemoteServiceError\<close>, but they decode the body
  without this test, so the empty body fails to decode.
\<close>


theorem no_content_decoding:
  assumes "\<And>rq. status_code (srv rq) = 204 \<and> content (srv rq) = []"
  shows "fst (get_s3_config srv) = Inr (JObj []) \<and>
         fst (list_databases srv services codes detail expand) = Inl JSONDecodeError \<and>
         fst (set_s3_config srv getpass access_key_id secret_access_key bucket region) = Inl JSONDecodeError \<and>
         fst (s3_push_databases srv services codes) = Inl JSONDecodeError \<and>
         fst (s3_pull_databases srv services codes force) = Inl JSONDecodeError \<and>
         fst (optimize_databases srv services codes) = Inl JSONDecodeError"
  using assms
  by (simp add: list_databases_def get_s3_config_def set_s3_config_def s3_push_databases_def
      s3_pull_databases_def optimize_databases_def Let_def not_error_204 response_json_def)

theorem no_content_decoding_witness:
  "status_code (no_content_server \<lparr>meth = GET, path = ''/db/s3config'', params = None, data = None\<rparr>) = 204 \<and>
   fst (get_s3_config no_content_server) = Inr (JObj []) \<and>
   fst (optimize_databases no_content_server PNone (PList [PStr ''usa-stk''])) = Inl JSONDecodeError"
  using no_content_decoding [of no_content_server PNone "PList [PStr ''usa-stk'']"]
  by (simp add: no_content_server_def)

subsection \<open>Error responses\<close>

lemma error_mapper:
  assumes "\<not> (200 \<le> status_code r \<and> status_code r < 300)" "content r \<noteq> []"
      "json_body r = Some (JObj members)" "map_of members ''error'' = Some (JStr msg)"
  shows "raise_for_status_with_json r = Some (RemoteServiceError (status_code r) msg)"
  using assms by (simp add: raise_for_status_with_json_def json_error_field_def response_json_def)

text \<open>
  Claim C4. When the service answers with a status outside 200..299 and a JSON object
  whose \<^verbatim>\<open>error\<close> member is a string, every database operation raises
  \<^verbatim>\<open>RemoteServiceError\<close> with that status and that string as its message. The
  witness is the answer 404 with body \<^verbatim>\<open>{"error": "not found"}\<close>: the message is
  \<^verbatim>\<open>not found\<close>.
\<close>

theorem remote_error_raised:
  assumes "\<And>rq. status_code (srv rq) = st \<and> content (srv rq) \<noteq> [] \<and>
                 json_body (srv rq) = Some (JObj members)"
    and "\<not> (200 \<le> st \<and> st < 300)"
    and "map_of members ''error'' = Some (JStr msg)"
  shows "fst (list_databases srv services codes detail expand) = Inl (RemoteServiceError st msg) \<and>
         fst (get_s3_config srv) = Inl (RemoteServiceError st msg) \<and>
         fst (set_s3_config srv getpass access_key_id secret_access_key bucket region)
           = Inl (RemoteServiceError st msg) \<and>
         fst (s3_push_databases srv services codes) = Inl (RemoteServiceError st msg) \<and>
         fst (s3_pull_databases srv services codes force) = Inl (RemoteServiceError st msg) \<and>
         fst (optimize_databases srv services codes) = Inl (RemoteServiceError st msg)"
proof -
  have "raise_for_status_with_json (srv rq) = Some (RemoteServiceError st msg)" for rq
    using error_mapper [of "srv rq" members msg] assms by simp
  then show ?thesis
    by (simp add: list_databases_def get_s3_config_def set_s3_config_def s3_push_databases_def
        s3_pull_databases_def optimize_databases_def Let_def)
qed

theorem remote_error_raised_witness:
  "fst (list_databases not_found_server PNone PNone PNone PNone)
     = Inl (RemoteServiceError 404 ''not found'') \<and>
   fst (get_s3_config not_found_server) = Inl (RemoteServiceError 404 ''not found'')"
  using remote_error_raised [of not_found_server 404 "[(''error'', JStr ''not found'')]" "''not found''"
      PNone PNone PNone PNone]
  by (simp add: not_found_server_def)

subsection \<open>Optional parameters\<close>

text \<open>
  Claim C5 says that the payload never has the key of a parameter the caller omitted.
  \<^verbatim>\<open>set_s3_config\<close> called with an access key and no secret prompts for the secret
  and sends what was typed under \<^verbatim>\<open>secret_access_key\<close>.
\<close>

theorem omitted_secret_counterexample:
  "snd (set_s3_config ok_server typed_secret (PStr ''AKIAEXAMPLE'') PNone PNone PNone) =
     [Prompt ''Enter AWS Secret Access Key: '',
      Request \<lparr>meth = PUT, path = ''/db/s3config'', params = None,
        data = Some [(''access_key_id'', PStr ''AKIAEXAMPLE''),
                     (''secret_access_key'', PStr ''s3cr3t'')]\<rparr>]"
  by (simp add: set_s3_config_def Let_def typed_secret_def setitem_def)

text \<open>
  Claim C5, amended. For every database operation the payload has the key of an
  optional parameter exactly when the value passed is truthy, with one exception:
  \<^verbatim>\<open>secret_access_key\<close> of \<^verbatim>\<open>set_s3_config\<close> is also sent when the caller left it
  out, the access key is truthy and the value typed at the prompt is not empty. No
  payload holds \<^verbatim>\<open>None\<close>.
\<close>

theorem optional_parameters_omitted:
  "payload_keys (snd (list_databases srv services codes detail expand)) =
     {k. (k = ''services'' \<and> truthy services) \<or> (k = ''codes'' \<and> truthy codes) \<or>
         (k = ''detail'' \<and> truthy detail) \<or> (k = ''expand'' \<and> truthy expand)} \<and>
   payload_keys (snd (set_s3_config srv getpass access_key_id secret_access_key bucket region)) =
     {k. (k = ''access_key_id'' \<and> truthy access_key_id) \<or>
         (k = ''secret_access_key'' \<and>
            (truthy secret_access_key \<or>
             (truthy access_key_id \<and> getpass ''Enter AWS Secret Access Key: '' \<noteq> []))) \<or>
         (k = ''bucket'' \<and> truthy bucket) \<or> (k = ''region'' \<and> truthy region)} \<and>
   payload_keys (snd (s3_push_databases srv services codes)) =
     {k. (k = ''services'' \<and> truthy services) \<or> (k = ''codes'' \<and> truthy codes)} \<and>
   payload_keys (snd (s3_pull_databases srv services codes force)) =
     {k. (k = ''services'' \<and> truthy services) \<or> (k = ''codes'' \<and> truthy codes) \<or>
         (k = ''force'' \<and> truthy force)} \<and>
   payload_keys (snd (optimize_databases srv services codes)) =
     {k. (k = ''services'' \<and> truthy services) \<or> (k = ''codes'' \<and> truthy codes)} \<and>
   PNone \<notin> payload_values (snd (list_databases srv services codes detail expand)) \<and>
   PNone \<notin> payload_values
     (snd (set_s3_config srv getpass access_key_id secret_access_key bucket region)) \<and>
   PNone \<notin> payload_values (snd (s3_push_databases srv services codes)) \<and>
   PNone \<notin> payload_values (snd (s3_pull_databases srv services codes force)) \<and>
   PNone \<notin> payload_values (snd (optimize_databases srv services codes))"
  by (intro conjI list_databases_keys set_s3_config_keys s3_push_databases_keys
      s3_pull_databases_keys optimize_databases_keys
      not_truthy_None [OF list_databases_values] not_truthy_None [OF set_s3_config_values]
      not_truthy_None [OF s3_push_databases_values] not_truthy_None [OF s3_pull_databases_values]
      not_truthy_None [OF optimize_databases_values])

theorem optional_parameters_omitted_witness:
  "payload_keys (snd (list_databases ok_server PNone (PList [PStr ''usa-stk-trades'']) (PBool False) (PBool True)))
     = {''codes'', ''expand''} \<and>
   payload_keys (snd (set_s3_config ok_server typed_secret PNone PNone (PStr ''my-bucket'') (PStr [])))
     = {''bucket''}"
  using optional_parameters_omitted [of ok_server PNone "PList [PStr ''usa-stk-trades'']" "PBool False"
      "PBool True" typed_secret PNone PNone "PStr ''my-bucket''" "PStr []" PNone]
  by (simp add: set_eq_iff)

subsection \<open>The prompt for the secret\<close>

text \<open>
  Claim C9. When \<^verbatim>\<open>set_s3_config\<close> gets a truthy access key and a falsy secret, it
  prompts for the secret before it sends its request, and the payload holds the access
  key and, unless nothing was typed, the typed secret. So whenever the payload has the
  key \<^verbatim>\<open>access_key_id\<close> and the value typed at the prompt is not empty, the payload
  also has the key \<^verbatim>\<open>secret_access_key\<close>.
\<close>

theorem secret_prompted:
  "(truthy access_key_id \<and> \<not> truthy secret_access_key \<longrightarrow>
      (\<exists>d. snd (set_s3_config srv getpass access_key_id secret_access_key bucket region) =
              [Prompt ''Enter AWS Secret Access Key: '',
               Request \<lparr>meth = PUT, path = ''/db/s3config'', params = None, data = Some d\<rparr>] \<and>
            map_of d ''access_key_id'' = Some access_key_id \<and>
            map_of d ''secret_access_key'' =
              (if getpass ''Enter AWS Secret Access Key: '' = [] then None
               else Some (PStr (getpass ''Enter AWS Secret Access Key: ''))))) \<and>
   (''access_key_id'' \<in> payload_keys
        (snd (set_s3_config srv getpass access_key_id secret_access_key bucket region)) \<and>
    getpass ''Enter AWS Secret Access Key: '' \<noteq> [] \<longrightarrow>
    ''secret_access_key'' \<in> payload_keys
        (snd (set_s3_config srv getpass access_key_id secret_access_key bucket region)))"
proof (intro conjI impI)
  assume a: "truthy access_key_id \<and> \<not> truthy secret_access_key"
  then show "\<exists>d. snd (set_s3_config srv getpass access_key_id secret_access_key bucket region) =
              [Prompt ''Enter AWS Secret Access Key: '',
               Request \<lparr>meth = PUT, path = ''/db/s3config'', params = None, data = Some d\<rparr>] \<and>
            map_of d ''access_key_id'' = Some access_key_id \<and>
            map_of d ''secret_access_key'' =
              (if getpass ''Enter AWS Secret Access Key: '' = [] then None
               else Some (PStr (getpass ''Enter AWS Secret Access Key: '')))"
    by (simp add: set_s3_config_def Let_def setitem_def update_conv')
next
  assume "''access_key_id'' \<in> payload_keys
        (snd (set_s3_config srv getpass access_key_id secret_access_key bucket region)) \<and>
    getpass ''Enter AWS Secret Access Key: '' \<noteq> []"
  then show "''secret_access_key'' \<in> payload_keys
        (snd (set_s3_config srv getpass access_key_id secret_access_key bucket region))"
    unfolding set_s3_config_keys by simp
qed

theorem secret_prompted_witness:
  "snd (set_s3_config ok_server typed_secret (PStr ''AKIAEXAMPLE'') (PStr []) PNone (PStr ''us-east-1'')) =
     [Prompt ''Enter AWS Secret Access Key: '',
      Request \<lparr>meth = PUT, path = ''/db/s3config'', params = None,
        data = Some [(''access_key_id'', PStr ''AKIAEXAMPLE''),
                     (''secret_access_key'', PStr ''s3cr3t''), (''region'', PStr ''us-east-1'')]\<rparr>] \<and>
   ''secret_access_key'' \<in> payload_keys
      (snd (set_s3_config ok_server typed_secret (PStr ''AKIAEXAMPLE'') (PStr []) PNone (PStr ''us-east-1'')))"
  using secret_prompted [of "PStr ''AKIAEXAMPLE''" "PStr []" ok_server typed_secret PNone "PStr ''us-east-1''"]
  by (simp add: set_s3_config_def Let_def typed_secret_def setitem_def payload_keys_def
      requests_def payload_def keys_def)

end
